theory Spec2Isabelle
  imports Complex_Main
begin

section \<open>Python values and exceptions\<close>

text \<open>
  The notebooks are Python. Exceptions are values of \<open>py_error\<close>, and a computation that
  may raise has a result of type \<open>py_error + 'a\<close> (\<open>Inl\<close> is the raised exception).
  Python's floats are read as the real numbers and its complex numbers as \<open>complex\<close>:
  the functions of \<open>cmath\<close> are the exact mathematical functions, and rounding is
  outside the model.
\<close>

datatype py_error = KeyError | ZeroDivisionError | ValueError

definition bind_err :: "py_error + 'a \<Rightarrow> ('a \<Rightarrow> py_error + 'b) \<Rightarrow> py_error + 'b" where
  "bind_err r f = (case r of Inl e \<Rightarrow> Inl e | Inr v \<Rightarrow> f v)"

text \<open>\<^verbatim>\<open>try: body  except exc: fallback\<close> catches the named exception only.\<close>

definition try_except :: "py_error + 'a \<Rightarrow> py_error \<Rightarrow> 'a \<Rightarrow> py_error + 'a" where
  "try_except body exc fallback =
     (case body of Inl e \<Rightarrow> (if e = exc then Inr fallback else Inl e) | Inr v \<Rightarrow> Inr v)"

text \<open>\<^verbatim>\<open>d[k]\<close> on a dictionary raises \<open>KeyError\<close> on a missing key.\<close>

definition getitem :: "('k \<rightharpoonup> 'v) \<Rightarrow> 'k \<Rightarrow> py_error + 'v" where
  "getitem d k = (case d k of None \<Rightarrow> Inl KeyError | Some v \<Rightarrow> Inr v)"

text \<open>\<^verbatim>\<open>a / b\<close> on two ints is true division and raises on a zero divisor.\<close>

definition truediv :: "int \<Rightarrow> int \<Rightarrow> py_error + real" where
  "truediv a b = (if b = 0 then Inl ZeroDivisionError else Inr (real_of_int a / real_of_int b))"


section \<open>The success probability of the HHL protocol\<close>

text \<open>
  \<^verbatim>\<open>
  def get_psuccess(counts):
      try:
          succ_rotation_fail_swap = counts['11']
      except KeyError:
          succ_rotation_fail_swap = 0
      try:
          succ_rotation_succ_swap = counts['01']
      except KeyError:
          succ_rotation_succ_swap = 0
      succ_rotation = succ_rotation_succ_swap + succ_rotation_fail_swap
      try:
          prob_swap_test_success = succ_rotation_succ_swap / succ_rotation
      except ZeroDivisionError:
          prob_swap_test_success = 0
      return prob_swap_test_success
  \<close>
\<close>

definition get_psuccess :: "(string \<rightharpoonup> int) \<Rightarrow> py_error + real" where
  "get_psuccess counts =
     bind_err (try_except (getitem counts ''11'') KeyError 0) (\<lambda>succ_rotation_fail_swap.
     bind_err (try_except (getitem counts ''01'') KeyError 0) (\<lambda>succ_rotation_succ_swap.
     let succ_rotation = succ_rotation_succ_swap + succ_rotation_fail_swap
     in try_except (truediv succ_rotation_succ_swap succ_rotation) ZeroDivisionError 0))"

text \<open>The count of a key, an absent key read as 0 (the wording of the specification).\<close>

definition count_or_zero :: "(string \<rightharpoonup> int) \<Rightarrow> string \<Rightarrow> int" where
  "count_or_zero counts k = (case counts k of None \<Rightarrow> 0 | Some v \<Rightarrow> v)"


section \<open>The histogram plotting helper\<close>

text \<open>
  \<^verbatim>\<open>
  def plot_histogram(counts):
      x = np.arange(len(counts))
      plt.bar(x, counts.values())
      plt.xticks(x, counts.keys())
      plt.show()
  \<close>
  The mapping is a Python dictionary, which iterates in insertion order: an association
  list. The plotting library is the state of the current figure: \<open>plt.bar\<close> adds one bar
  for each position with the height at the same index, \<open>plt.xticks\<close> sets the tick
  locations and their labels, \<open>plt.show\<close> displays the figure. Both raise \<open>ValueError\<close>
  when the two sequences differ in length.
\<close>

record ('k, 'v) figure =
  bars :: "(int \<times> 'v) list"
  xticks :: "(int \<times> 'k) list"
  shown :: bool

definition new_figure :: "('k, 'v) figure" where
  "new_figure = \<lparr>bars = [], xticks = [], shown = False\<rparr>"

definition np_arange :: "nat \<Rightarrow> int list" where
  "np_arange n = map int [0..<n]"

definition plt_bar :: "int list \<Rightarrow> 'v list \<Rightarrow> ('k, 'v) figure \<Rightarrow> py_error + ('k, 'v) figure" where
  "plt_bar x height fig =
     (if length x \<noteq> length height then Inl ValueError
      else Inr (fig\<lparr>bars := bars fig @ zip x height\<rparr>))"

definition plt_xticks :: "int list \<Rightarrow> 'k list \<Rightarrow> ('k, 'v) figure \<Rightarrow> py_error + ('k, 'v) figure" where
  "plt_xticks ticks labels fig =
     (if length ticks \<noteq> length labels then Inl ValueError
      else Inr (fig\<lparr>xticks := zip ticks labels\<rparr>))"

definition plt_show :: "('k, 'v) figure \<Rightarrow> py_error + ('k, 'v) figure" where
  "plt_show fig = Inr (fig\<lparr>shown := True\<rparr>)"

definition dict_keys :: "('k \<times> 'v) list \<Rightarrow> 'k list" where
  "dict_keys d = map fst d"

definition dict_values :: "('k \<times> 'v) list \<Rightarrow> 'v list" where
  "dict_values d = map snd d"

definition plot_histogram :: "('k \<times> 'v) list \<Rightarrow> ('k, 'v) figure \<Rightarrow> py_error + ('k, 'v) figure" where
  "plot_histogram counts fig =
     (let x = np_arange (length counts)
      in bind_err (plt_bar x (dict_values counts) fig) (\<lambda>fig.
         bind_err (plt_xticks x (dict_keys counts) fig) (\<lambda>fig.
         plt_show fig)))"


section \<open>Circuits\<close>

text \<open>
  A circuit of the quantum library is the sequence of its operations, in the order they
  were appended; an operation is a gate on a list of qubits. Only the gates that the
  notebooks use are named.
\<close>

datatype qubit = LineQubit int | GridQubit int int

datatype gate =
    H | X | CNOT | SWAP | CCX | CZ
  | Rz real
  | Ry real
  | MatrixGate "complex list list"
  | ControlledGate gate
  | PowGate gate real
  | MeasurementGate string

datatype operation = Operation (gate: gate) (qubits: "qubit list")

type_synonym circuit = "operation list"

definition on :: "gate \<Rightarrow> qubit list \<Rightarrow> operation list" where
  "on g qs = [Operation g qs]"

definition on_each :: "gate \<Rightarrow> qubit list \<Rightarrow> operation list" where
  "on_each g qs = map (\<lambda>q. Operation g [q]) qs"

definition measure_key :: "qubit list \<Rightarrow> string \<Rightarrow> operation list" where
  "measure_key qs key = [Operation (MeasurementGate key) qs]"

definition append_ops :: "circuit \<Rightarrow> operation list \<Rightarrow> circuit" where
  "append_ops c ops = c @ ops"

definition LineQubit_range :: "nat \<Rightarrow> qubit list" where
  "LineQubit_range n = map (\<lambda>i. LineQubit (int i)) [0..<n]"

definition is_measurement :: "operation \<Rightarrow> bool" where
  "is_measurement op = (case gate op of MeasurementGate key \<Rightarrow> True | _ \<Rightarrow> False)"

definition all_qubits :: "circuit \<Rightarrow> qubit set" where
  "all_qubits c = set (concat (map qubits c))"


section \<open>The HHL demonstration circuit\<close>

text \<open>
  \<^verbatim>\<open>
  def u3(t, p, l):
      matrix = np.array(
        [[np.cos(t/2.0), -np.exp(1.0j*l)*np.sin(t/2.0)],
         [np.exp(1.0j*p)*np.sin(t/2.0), np.exp(1.0j*(p+l))*np.cos(t/2.0)]])
      return cirq.MatrixGate(matrix=matrix)
  def cu3(t, p, l): return cirq.ControlledGate(u3(t, p, l))
  def u1(l): return u3(0, 0, l)
  def cu1(l): return cu3(0, 0, l)
  \<close>
\<close>

definition u3 :: "real \<Rightarrow> real \<Rightarrow> real \<Rightarrow> gate" where
  "u3 t p l = MatrixGate
     [[complex_of_real (cos (t / 2)), - exp (\<i> * complex_of_real l) * complex_of_real (sin (t / 2))],
      [exp (\<i> * complex_of_real p) * complex_of_real (sin (t / 2)),
       exp (\<i> * complex_of_real (p + l)) * complex_of_real (cos (t / 2))]]"

definition cu3 :: "real \<Rightarrow> real \<Rightarrow> real \<Rightarrow> gate" where
  "cu3 t p l = ControlledGate (u3 t p l)"

definition u1 :: "real \<Rightarrow> gate" where
  "u1 l = u3 0 0 l"

definition cu1 :: "real \<Rightarrow> gate" where
  "cu1 l = cu3 0 0 l"

text \<open>\<^verbatim>\<open>q = cirq.LineQubit.range(6)\<close>\<close>

definition q :: "qubit list" where
  "q = LineQubit_range 6"

text \<open>
  \<^verbatim>\<open>hhl = cirq.Circuit()\<close> followed by the \<^verbatim>\<open>hhl.append(...)\<close> calls of the notebook, one
  list element for each call, in the order of the cells.
\<close>

definition hhl :: circuit where
  "hhl = foldl append_ops []
     [on_each H [q ! 1, q ! 2],
      on (cu3 (- pi / 2) (- pi / 2) (pi / 2)) [q ! 2, q ! 3],
      on (cu1 (3 * pi / 4)) [q ! 2, q ! 3],
      on CNOT [q ! 2, q ! 3],
      on (cu1 (3 * pi / 4)) [q ! 2, q ! 3],
      on CNOT [q ! 2, q ! 3],
      on CNOT [q ! 1, q ! 3],
      on SWAP [q ! 1, q ! 2],
      on H [q ! 2],
      on (cu1 (- pi / 2)) [q ! 1, q ! 2],
      on H [q ! 1],
      on SWAP [q ! 1, q ! 2],
      on (cu3 (392699 / 1000000) 0 0) [q ! 1, q ! 0],
      on (cu3 (19634955 / 100000000) 0 0) [q ! 2, q ! 0],
      on SWAP [q ! 1, q ! 2],
      on H [q ! 1],
      on (cu1 (pi / 2)) [q ! 1, q ! 2],
      on H [q ! 2],
      on SWAP [q ! 2, q ! 1],
      on CNOT [q ! 1, q ! 3],
      on CNOT [q ! 2, q ! 3],
      on (cu1 (- 3 * pi / 4)) [q ! 2, q ! 3],
      on CNOT [q ! 2, q ! 3],
      on (cu1 (- 3 * pi / 4)) [q ! 2, q ! 3],
      on (cu3 (- pi / 2) (pi / 2) (- pi / 2)) [q ! 2, q ! 3],
      on_each H [q ! 1, q ! 2],
      on (Rz (- pi)) [q ! 4],
      on (u1 pi) [q ! 4],
      on H [q ! 4],
      on (Ry (- 9311623288419387 / 10000000000000000)) [q ! 4],
      on (Rz pi) [q ! 4],
      on H [q ! 5],
      on CNOT [q ! 4, q ! 3],
      on CCX [q ! 5, q ! 3, q ! 4],
      on CNOT [q ! 4, q ! 3],
      on H [q ! 5],
      measure_key [q ! 0, q ! 5] ''result'']"


section \<open>The three-qubit Fourier transform circuit\<close>

text \<open>
  \<^verbatim>\<open>
  q0 = cirq.GridQubit(0,0)
  q1 = cirq.GridQubit(1,0)
  q2 = cirq.GridQubit(2,0)
  qft = Circuit(
      cirq.H(q0),
      cirq.CZ(q1, q0)**0.5,
      cirq.H(q1),
      cirq.CZ(q2, q0)**0.25,
      cirq.CZ(q2, q1)**0.5,
      cirq.H(q2)
  )
  \<close>
\<close>

definition q0 :: qubit where
  "q0 = GridQubit 0 0"

definition q1 :: qubit where
  "q1 = GridQubit 1 0"

definition q2 :: qubit where
  "q2 = GridQubit 2 0"

definition qft :: circuit where
  "qft =
     [Operation H [q0],
      Operation (PowGate CZ (1 / 2)) [q1, q0],
      Operation H [q1],
      Operation (PowGate CZ (1 / 4)) [q2, q0],
      Operation (PowGate CZ (1 / 2)) [q2, q1],
      Operation H [q2]]"


section \<open>State vectors\<close>

text \<open>
  What the simulator of the library does with the gates of \<open>qft\<close>. A state of n qubits is
  the list of its \<open>2\<^sup>n\<close> amplitudes. The qubits are taken in a given order (the simulator
  sorts them, which for \<open>qft\<close> gives \<open>q0, q1, q2\<close>), and the first qubit is the most
  significant bit of the index of an amplitude. The Hadamard gate maps the amplitudes
  \<open>(a, b)\<close> of a qubit to \<open>((a + b) / \<surd>2, (a - b) / \<surd>2)\<close>, and \<open>CZ**t\<close> multiplies by
  \<open>e\<^sup>i\<^sup>\<pi>\<^sup>t\<close> the amplitudes in which both of its qubits are 1. A gate that the circuit
  \<open>qft\<close> does not use has no result here.
\<close>

type_synonym state_vector = "complex list"

fun position :: "qubit list \<Rightarrow> qubit \<Rightarrow> nat option" where
  "position [] a = None"
| "position (b # bs) a = (if a = b then Some 0 else map_option Suc (position bs a))"

definition qubit_bit :: "nat \<Rightarrow> nat \<Rightarrow> nat \<Rightarrow> bool" where
  "qubit_bit n p k = odd (k div 2 ^ (n - 1 - p))"

definition hadamard :: "nat \<Rightarrow> nat \<Rightarrow> state_vector \<Rightarrow> state_vector" where
  "hadamard n p st =
     map (\<lambda>k. let m = 2 ^ (n - 1 - p)
              in if qubit_bit n p k then (st ! (k - m) - st ! k) / complex_of_real (sqrt 2)
                 else (st ! k + st ! (k + m)) / complex_of_real (sqrt 2))
       [0..<length st]"

definition cz_pow :: "real \<Rightarrow> nat \<Rightarrow> nat \<Rightarrow> nat \<Rightarrow> state_vector \<Rightarrow> state_vector" where
  "cz_pow t n a b st =
     map (\<lambda>k. if qubit_bit n a k \<and> qubit_bit n b k
              then exp (\<i> * complex_of_real (pi * t)) * st ! k else st ! k)
       [0..<length st]"

definition apply_operation :: "qubit list \<Rightarrow> operation \<Rightarrow> state_vector \<Rightarrow> state_vector option" where
  "apply_operation order op st =
     (let n = length order in
      case (gate op, map (position order) (qubits op)) of
        (H, [Some p]) \<Rightarrow> Some (hadamard n p st)
      | (CZ, [Some a, Some b]) \<Rightarrow> Some (cz_pow 1 n a b st)
      | (PowGate CZ t, [Some a, Some b]) \<Rightarrow> Some (cz_pow t n a b st)
      | _ \<Rightarrow> None)"

fun run_operations :: "qubit list \<Rightarrow> circuit \<Rightarrow> state_vector \<Rightarrow> state_vector option" where
  "run_operations order [] st = Some st"
| "run_operations order (op # ops) st =
     (case apply_operation order op st of None \<Rightarrow> None | Some st' \<Rightarrow> run_operations order ops st')"

definition simulate :: "qubit list \<Rightarrow> circuit \<Rightarrow> state_vector \<Rightarrow> state_vector option" where
  "simulate order c initial_state =
     (if length initial_state = 2 ^ length order then run_operations order c initial_state else None)"

text \<open>
  The discrete Fourier transform of the notebook:
  \<open>y\<^sub>k = (1 / \<surd>N) \<Sum>\<^sub>j x\<^sub>j e\<^sup>2\<^sup>\<pi>\<^sup>i\<^sup>j\<^sup>k\<^sup>/\<^sup>N\<close>.
\<close>

definition dft :: "complex list \<Rightarrow> complex list" where
  "dft xs =
     (let N = length xs
      in map (\<lambda>k. (\<Sum>j\<leftarrow>[0..<N]. xs ! j * exp (2 * complex_of_real pi * \<i> * of_nat (j * k) / of_nat N))
                   / complex_of_real (sqrt (real N)))
           [0..<N])"

text \<open>The eighth roots of unity, and the reversal of the three bits of an index.\<close>

definition omega8 :: "nat \<Rightarrow> complex" where
  "omega8 m = cis (pi * real m / 4)"

definition bit_reverse3 :: "nat \<Rightarrow> nat" where
  "bit_reverse3 k = 4 * (k mod 2) + 2 * (k div 2 mod 2) + k div 4 mod 2"


section \<open>The functions of cmath\<close>

text \<open>
  Division of complex numbers raises \<open>ZeroDivisionError\<close> on a zero divisor.
  \<open>cmath.phase\<close> is the argument in \<open>(-\<pi>, \<pi>]\<close>, with \<open>phase(0) = 0\<close>.
  \<open>cmath.isclose(a, b)\<close> is called with its default tolerances \<open>rel_tol = 1e-09\<close> and
  \<open>abs_tol = 0.0\<close>. \<open>cmath.log\<close> is the principal logarithm and raises \<open>ValueError\<close>
  at 0; \<open>cmath.acos\<close> is the principal arc cosine. \<open>cmath.exp\<close>, \<open>cmath.sin\<close> and
  \<open>cmath.cos\<close> are \<open>exp\<close>, \<open>sin\<close> and \<open>cos\<close> on \<open>complex\<close>. The real numbers have one
  zero: the sign that a floating-point zero carries is not modelled.
\<close>

definition cdiv :: "complex \<Rightarrow> complex \<Rightarrow> py_error + complex" where
  "cdiv a b = (if b = 0 then Inl ZeroDivisionError else Inr (a / b))"

definition phase :: "complex \<Rightarrow> real" where
  "phase z = Arg z"

definition rel_tol :: real where
  "rel_tol = 1 / 10 ^ 9"

definition abs_tol :: real where
  "abs_tol = 0"

definition isclose :: "real \<Rightarrow> real \<Rightarrow> bool" where
  "isclose a b =
     (a = b \<or> \<bar>a - b\<bar> \<le> rel_tol * \<bar>b\<bar> \<or> \<bar>a - b\<bar> \<le> rel_tol * \<bar>a\<bar> \<or> \<bar>a - b\<bar> \<le> abs_tol)"

definition principal_log :: "complex \<Rightarrow> complex" where
  "principal_log z = Complex (ln (cmod z)) (Arg z)"

definition cmath_log :: "complex \<Rightarrow> py_error + complex" where
  "cmath_log z = (if z = 0 then Inl ValueError else Inr (principal_log z))"

definition cmath_acos :: "complex \<Rightarrow> complex" where
  "cmath_acos z = - \<i> * principal_log (z + \<i> * csqrt (1 - z\<^sup>2))"


section \<open>The Bloch-vector helper\<close>

text \<open>
  \<^verbatim>\<open>
  def get_vector(alpha, beta):
      # get phases
      angle_alpha = cmath.phase(alpha)
      angle_beta = cmath.phase(beta)
      # avoiding wrong normalization due to rounding errors
      if cmath.isclose(angle_alpha, cmath.pi):
          angle_alpha = 0
      if cmath.isclose(angle_beta, cmath.pi):
          angle_beta = 0
      if (angle_beta < 0 and angle_alpha < angle_beta) or (angle_beta > 0 and angle_alpha > angle_beta):
              denominator = cmath.exp(1j*angle_beta)
      else:
              denominator = cmath.exp(1j*angle_alpha)
      # eliminate global phase
      alpha_new = alpha/denominator
      beta_new = beta/denominator
      # special case to avoid division by zero
      if abs(alpha) == 0 or abs(beta) == 0:
          if alpha == 0:
              return [0,0,-1]
          else:
              return [0,0,1]
      else:
          # compute theta and phi from alpha and beta
          theta = 2*cmath.acos(alpha_new)
          phi = -1j*cmath.log(beta_new/cmath.sin(theta/2))
          # compute the Cartesian coordinates
          x = cmath.sin(theta)*cmath.cos(phi)
          y = cmath.sin(theta)*cmath.sin(phi)
          z = cmath.cos(theta)
      return [x.real, y.real, z.real]
  \<close>
  The function is modelled in three steps: the two phases after the adjustment near \<open>\<pi>\<close>,
  the denominator chosen from them, and the rest of the body.
\<close>

definition snapped_phases :: "complex \<Rightarrow> complex \<Rightarrow> real \<times> real" where
  "snapped_phases alpha beta =
     (let angle_alpha = phase alpha;
          angle_beta = phase beta;
          angle_alpha = (if isclose angle_alpha pi then 0 else angle_alpha);
          angle_beta = (if isclose angle_beta pi then 0 else angle_beta)
      in (angle_alpha, angle_beta))"

definition denominator :: "complex \<Rightarrow> complex \<Rightarrow> complex" where
  "denominator alpha beta =
     (let (angle_alpha, angle_beta) = snapped_phases alpha beta
      in if (angle_beta < 0 \<and> angle_alpha < angle_beta) \<or> (angle_beta > 0 \<and> angle_alpha > angle_beta)
         then exp (\<i> * complex_of_real angle_beta)
         else exp (\<i> * complex_of_real angle_alpha))"

definition get_vector :: "complex \<Rightarrow> complex \<Rightarrow> py_error + real list" where
  "get_vector alpha beta =
     bind_err (cdiv alpha (denominator alpha beta)) (\<lambda>alpha_new.
     bind_err (cdiv beta (denominator alpha beta)) (\<lambda>beta_new.
     if cmod alpha = 0 \<or> cmod beta = 0 then
       (if alpha = 0 then Inr [0, 0, - 1] else Inr [0, 0, 1])
     else
       let theta = 2 * cmath_acos alpha_new
       in bind_err (cdiv beta_new (sin (theta / 2))) (\<lambda>quotient.
          bind_err (cmath_log quotient) (\<lambda>log_quotient.
          let phi = - \<i> * log_quotient;
              x = sin theta * cos phi;
              y = sin theta * sin phi;
              z = cos theta
          in Inr [Re x, Re y, Re z]))))"

text \<open>
  Two inputs of get_vector that differ by a global phase: \<open>(0.6j, 0.8)\<close>, and the same
  pair multiplied by \<open>0.6 + 0.8j\<close>, which is \<open>(-0.48 + 0.36j, 0.48 + 0.64j)\<close>.
\<close>

definition alpha_rot :: complex where
  "alpha_rot = Complex (- 12 / 25) (9 / 25)"

definition beta_rot :: complex where
  "beta_rot = Complex (12 / 25) (16 / 25)"

definition alpha_ref :: complex where
  "alpha_ref = Complex 0 (3 / 5)"

definition beta_ref :: complex where
  "beta_ref = Complex (4 / 5) 0"


section \<open>Properties of get_psuccess\<close>

lemma get_psuccess_eq:
  "get_psuccess counts =
     (if count_or_zero counts ''01'' + count_or_zero counts ''11'' = 0 then Inr 0
      else Inr (real_of_int (count_or_zero counts ''01'') /
                real_of_int (count_or_zero counts ''01'' + count_or_zero counts ''11'')))"
  by (simp add: get_psuccess_def bind_err_def try_except_def getitem_def truediv_def
      count_or_zero_def Let_def split: option.splits)

text \<open>
  Claim C3. A missing \<open>'11'\<close> key and a missing \<open>'01'\<close> key are treated as the count 0:
  the result is the one for the mapping with the key set to 0, no \<open>KeyError\<close> leaves the
  function, and where the two counts do not add up to zero the result is
  \<open>counts['01'] / (counts['01'] + counts['11'])\<close> with each absent key read as 0.
\<close>

theorem get_psuccess_missing_keys_as_zero:
  "(counts ''11'' = None \<longrightarrow> get_psuccess counts = get_psuccess (counts(''11'' \<mapsto> 0))) \<and>
   (counts ''01'' = None \<longrightarrow> get_psuccess counts = get_psuccess (counts(''01'' \<mapsto> 0))) \<and>
   get_psuccess counts \<noteq> Inl KeyError \<and>
   (count_or_zero counts ''01'' + count_or_zero counts ''11'' \<noteq> 0 \<longrightarrow>
      get_psuccess counts =
        Inr (real_of_int (count_or_zero counts ''01'') /
             real_of_int (count_or_zero counts ''01'' + count_or_zero counts ''11'')))"
  by (simp add: get_psuccess_eq count_or_zero_def)

theorem get_psuccess_missing_keys_as_zero_witness:
  "(Map.empty(''01'' \<mapsto> (3::int))) ''11'' = None \<and>
   get_psuccess (Map.empty(''01'' \<mapsto> 3)) = get_psuccess (Map.empty(''01'' \<mapsto> 3, ''11'' \<mapsto> 0)) \<and>
   count_or_zero (Map.empty(''01'' \<mapsto> 3)) ''01'' + count_or_zero (Map.empty(''01'' \<mapsto> 3)) ''11'' \<noteq> 0 \<and>
   get_psuccess (Map.empty(''01'' \<mapsto> 3)) = Inr 1"
proof -
  let ?m = "Map.empty(''01'' \<mapsto> (3::int))"
  have absent: "?m ''11'' = None"
    by simp
  have nonzero: "count_or_zero ?m ''01'' + count_or_zero ?m ''11'' \<noteq> 0"
    by (simp add: count_or_zero_def)
  note inst = get_psuccess_missing_keys_as_zero [of ?m]
  from inst absent have same: "get_psuccess ?m = get_psuccess (?m(''11'' \<mapsto> 0))"
    by blast
  from inst nonzero have "get_psuccess ?m =
      Inr (real_of_int (count_or_zero ?m ''01'') /
           real_of_int (count_or_zero ?m ''01'' + count_or_zero ?m ''11''))"
    by blast
  then have "get_psuccess ?m = Inr 1"
    by (simp add: count_or_zero_def)
  with absent nonzero same show ?thesis
    by blast
qed

text \<open>
  Claim C10. For a mapping with non-negative counts the function returns a value in
  \<open>[0, 1]\<close>; it returns 0, and does not raise \<open>ZeroDivisionError\<close>, when the two counts
  add up to zero, in particular when neither key is present.
\<close>

theorem get_psuccess_in_unit_interval:
  assumes "\<forall>k v. counts k = Some v \<longrightarrow> 0 \<le> v"
  shows "(\<exists>r. get_psuccess counts = Inr r \<and> 0 \<le> r \<and> r \<le> 1) \<and>
         (count_or_zero counts ''01'' + count_or_zero counts ''11'' = 0 \<longrightarrow>
            get_psuccess counts = Inr 0) \<and>
         (counts ''01'' = None \<and> counts ''11'' = None \<longrightarrow> get_psuccess counts = Inr 0)"
proof -
  have nonneg: "0 \<le> count_or_zero counts k" for k
    using assms by (simp add: count_or_zero_def split: option.splits)
  have "0 \<le> count_or_zero counts ''01''" and "0 \<le> count_or_zero counts ''11''"
    by (rule nonneg)+
  then have "\<exists>r. get_psuccess counts = Inr r \<and> 0 \<le> r \<and> r \<le> 1"
    by (simp add: get_psuccess_eq divide_le_eq_1)
  moreover have "count_or_zero counts ''01'' + count_or_zero counts ''11'' = 0 \<longrightarrow>
      get_psuccess counts = Inr 0"
    by (simp add: get_psuccess_eq)
  moreover have "counts ''01'' = None \<and> counts ''11'' = None \<longrightarrow> get_psuccess counts = Inr 0"
    by (simp add: get_psuccess_eq count_or_zero_def)
  ultimately show ?thesis by blast
qed

theorem get_psuccess_in_unit_interval_witness:
  "(\<exists>r. get_psuccess (Map.empty(''01'' \<mapsto> 3, ''11'' \<mapsto> 1)) = Inr r \<and> 0 \<le> r \<and> r \<le> 1) \<and>
   get_psuccess Map.empty = Inr 0"
proof -
  have h1: "\<forall>k v. (Map.empty(''01'' \<mapsto> (3::int), ''11'' \<mapsto> 1)) k = Some v \<longrightarrow> 0 \<le> v"
    by auto
  have h2: "\<forall>k v. (Map.empty :: string \<rightharpoonup> int) k = Some v \<longrightarrow> 0 \<le> v"
    by simp
  have r1: "\<exists>r. get_psuccess (Map.empty(''01'' \<mapsto> 3, ''11'' \<mapsto> 1)) = Inr r \<and> 0 \<le> r \<and> r \<le> 1"
    using get_psuccess_in_unit_interval [OF h1] by (rule conjunct1)
  have r2: "get_psuccess Map.empty = Inr 0"
    using get_psuccess_in_unit_interval [OF h2] by simp
  from r1 r2 show ?thesis
    by blast
qed


section \<open>Properties of plot_histogram\<close>

lemma plot_histogram_eq:
  "plot_histogram counts new_figure =
     Inr \<lparr>bars = zip (map int [0..<length counts]) (map snd counts),
          xticks = zip (map int [0..<length counts]) (map fst counts),
          shown = True\<rparr>"
  by (simp add: plot_histogram_def np_arange_def plt_bar_def plt_xticks_def plt_show_def
      dict_keys_def dict_values_def bind_err_def new_figure_def Let_def)

text \<open>
  Claim C4. On a fresh figure, plot_histogram draws exactly one bar per key: the i-th bar
  (in the order of the mapping) stands at position i and has the i-th value as its
  height, and the i-th tick, at the same position, has the i-th key as its label. No
  input is rejected, and the empty mapping goes the same way: it gives a figure with no
  bar and no tick.
\<close>

theorem plot_histogram_one_bar_per_key:
  "\<exists>fig. plot_histogram counts new_figure = Inr fig \<and>
     length (bars fig) = length counts \<and> length (xticks fig) = length counts \<and>
     (\<forall>i<length counts. bars fig ! i = (int i, snd (counts ! i)) \<and>
                         xticks fig ! i = (int i, fst (counts ! i))) \<and>
     shown fig \<and>
     (counts = [] \<longrightarrow> fig = \<lparr>bars = [], xticks = [], shown = True\<rparr>)"
  by (simp add: plot_histogram_eq)

theorem plot_histogram_one_bar_per_key_witness:
  "\<exists>fig. plot_histogram [(''0'', 507::int), (''1'', 493)] new_figure = Inr fig \<and>
     bars fig = [(0, 507), (1, 493)] \<and> xticks fig = [(0, ''0''), (1, ''1'')] \<and> shown fig"
proof -
  let ?counts = "[(''0'', 507::int), (''1'', 493)]"
  obtain fig where run: "plot_histogram ?counts new_figure = Inr fig"
    and nbars: "length (bars fig) = length ?counts"
    and nticks: "length (xticks fig) = length ?counts"
    and each: "\<forall>i<length ?counts. bars fig ! i = (int i, snd (?counts ! i)) \<and>
                 xticks fig ! i = (int i, fst (?counts ! i))"
    and sh: "shown fig"
    using plot_histogram_one_bar_per_key [of ?counts] by blast
  from each have "bars fig ! 0 = (0, 507)" and "bars fig ! 1 = (1, 493)"
    and "xticks fig ! 0 = (0, ''0'')" and "xticks fig ! 1 = (1, ''1'')"
    by simp_all
  with nbars nticks have "bars fig = [(0, 507), (1, 493)]" and "xticks fig = [(0, ''0''), (1, ''1'')]"
    by (simp_all add: list_eq_iff_nth_eq less_Suc_eq)
  with run sh show ?thesis
    by blast
qed


section \<open>Properties of the HHL circuit\<close>

lemma q_eq: "q = [LineQubit 0, LineQubit 1, LineQubit 2, LineQubit 3, LineQubit 4, LineQubit 5]"
  by (simp add: q_def LineQubit_range_def upt_rec)

lemma hhl_parts:
  "length hhl = 39"
  "map qubits hhl =
     [[LineQubit 1], [LineQubit 2], [LineQubit 2, LineQubit 3], [LineQubit 2, LineQubit 3],
      [LineQubit 2, LineQubit 3], [LineQubit 2, LineQubit 3], [LineQubit 2, LineQubit 3],
      [LineQubit 1, LineQubit 3], [LineQubit 1, LineQubit 2], [LineQubit 2],
      [LineQubit 1, LineQubit 2], [LineQubit 1], [LineQubit 1, LineQubit 2],
      [LineQubit 1, LineQubit 0], [LineQubit 2, LineQubit 0], [LineQubit 1, LineQubit 2],
      [LineQubit 1], [LineQubit 1, LineQubit 2], [LineQubit 2], [LineQubit 2, LineQubit 1],
      [LineQubit 1, LineQubit 3], [LineQubit 2, LineQubit 3], [LineQubit 2, LineQubit 3],
      [LineQubit 2, LineQubit 3], [LineQubit 2, LineQubit 3], [LineQubit 2, LineQubit 3],
      [LineQubit 1], [LineQubit 2], [LineQubit 4], [LineQubit 4], [LineQubit 4],
      [LineQubit 4], [LineQubit 4], [LineQubit 5], [LineQubit 4, LineQubit 3],
      [LineQubit 5, LineQubit 3, LineQubit 4], [LineQubit 4, LineQubit 3], [LineQubit 5],
      [LineQubit 0, LineQubit 5]]"
  "map is_measurement hhl = replicate 38 False @ [True]"
  "last hhl = Operation (MeasurementGate ''result'') [LineQubit 0, LineQubit 5]"
  by (simp_all add: hhl_def q_eq append_ops_def on_def on_each_def measure_key_def
      is_measurement_def cu3_def cu1_def u3_def u1_def eval_nat_numeral)

lemma hhl_measurements:
  "filter is_measurement hhl = [Operation (MeasurementGate ''result'') [LineQubit 0, LineQubit 5]]"
  by (simp add: hhl_def q_eq append_ops_def on_def on_each_def measure_key_def
      is_measurement_def cu3_def cu1_def u3_def u1_def)

text \<open>
  Claim C5. The circuit \<open>hhl\<close> is a constant: the 39 operations that the fixed sequence of
  appends puts on the six distinct qubits of \<open>cirq.LineQubit.range(6)\<close>, each of which it
  uses. Its only measurement is its last operation, which measures \<open>q[0]\<close> and \<open>q[5]\<close>
  under the key \<open>'result'\<close>.
\<close>

theorem hhl_six_qubits_one_final_measurement:
  "length q = 6 \<and> distinct q \<and> all_qubits hhl = set q \<and> length hhl = 39 \<and>
   last hhl = Operation (MeasurementGate ''result'') [q ! 0, q ! 5] \<and>
   filter is_measurement hhl = [last hhl] \<and>
   filter is_measurement (butlast hhl) = []"
proof -
  have "filter is_measurement (butlast hhl) = []"
    by (simp add: hhl_def q_eq append_ops_def on_def on_each_def measure_key_def
        is_measurement_def cu3_def cu1_def u3_def u1_def)
  moreover have "all_qubits hhl = set q"
    unfolding all_qubits_def hhl_parts(2) q_eq by auto
  moreover have "length q = 6" "distinct q"
    "Operation (MeasurementGate ''result'') [LineQubit 0, LineQubit 5] =
       Operation (MeasurementGate ''result'') [q ! 0, q ! 5]"
    by (simp_all add: q_eq)
  ultimately show ?thesis
    by (simp add: hhl_parts hhl_measurements)
qed


section \<open>Properties of get_vector\<close>

subsection \<open>The complex cosine of the arc cosine\<close>


lemma series_coefficient:
  "(cos_coeff n + \<i> * sin_coeff n) * z ^ n = (\<i> * z) ^ n /\<^sub>R fact n" for z :: complex
  by (auto simp: cos_coeff_def sin_coeff_def scaleR_conv_of_real field_simps
      elim!: evenE oddE)

lemma exp_i_times: "exp (\<i> * z) = cos z + \<i> * sin z" for z :: complex
proof -
  have "(\<lambda>n. (cos_coeff n + \<i> * sin_coeff n) * z ^ n) sums (cos z + \<i> * sin z)"
    using sums_add [OF cos_converges [of z] sums_mult [OF sin_converges [of z], of \<i>]]
    by (simp add: field_simps scaleR_conv_of_real)
  moreover have "(\<lambda>n. (\<i> * z) ^ n /\<^sub>R fact n) sums exp (\<i> * z)"
    by (rule exp_converges)
  ultimately show ?thesis
    by (simp add: series_coefficient sums_unique2)
qed

lemma cos_as_exp: "cos z = (exp (\<i> * z) + exp (- (\<i> * z))) / 2" for z :: complex
  using exp_i_times [of z] exp_i_times [of "- z"] by (simp add: field_simps)

lemma exp_principal_log: "z \<noteq> 0 \<Longrightarrow> exp (principal_log z) = z"
  by (simp add: principal_log_def exp_eq_polar cis_Arg sgn_eq)

lemma acos_argument_inverse:
  "(z + \<i> * csqrt (1 - z\<^sup>2)) * (z - \<i> * csqrt (1 - z\<^sup>2)) = 1"
proof -
  have "(z + \<i> * csqrt (1 - z\<^sup>2)) * (z - \<i> * csqrt (1 - z\<^sup>2)) = z\<^sup>2 + (csqrt (1 - z\<^sup>2))\<^sup>2"
    by (simp add: algebra_simps power2_eq_square)
  then show ?thesis
    by simp
qed

lemma acos_argument_nonzero: "z + \<i> * csqrt (1 - z\<^sup>2) \<noteq> 0"
  using acos_argument_inverse [of z] by auto

lemma cos_cmath_acos: "cos (cmath_acos z) = z"
proof -
  let ?u = "z + \<i> * csqrt (1 - z\<^sup>2)"
  have u: "?u \<noteq> 0"
    by (rule acos_argument_nonzero)
  have iw: "\<i> * cmath_acos z = principal_log ?u"
    by (simp add: cmath_acos_def)
  have "exp (- principal_log ?u) = inverse ?u"
    by (simp add: exp_minus exp_principal_log [OF u])
  also have "\<dots> = z - \<i> * csqrt (1 - z\<^sup>2)"
    using acos_argument_inverse [of z] u by (simp add: field_simps)
  finally have "exp (- principal_log ?u) = z - \<i> * csqrt (1 - z\<^sup>2)" .
  then show ?thesis
    by (simp add: cos_as_exp iw exp_principal_log [OF u])
qed

lemma sin_cmath_acos_squared: "(sin (cmath_acos z))\<^sup>2 = 1 - z\<^sup>2"
  using sin_cos_squared_add [of "cmath_acos z"] by (simp add: cos_cmath_acos algebra_simps)

lemma sin_cmath_acos_nonzero: "z\<^sup>2 \<noteq> 1 \<Longrightarrow> sin (cmath_acos z) \<noteq> 0"
  using sin_cmath_acos_squared [of z] by auto

lemma cos_double_cmath_acos: "cos (2 * cmath_acos z) = 2 * z\<^sup>2 - 1"
  by (simp add: cos_double_cos cos_cmath_acos)

subsection \<open>The phases and the denominator\<close>

lemma snapped_phases_fst: "fst (snapped_phases alpha beta) = (if isclose (phase alpha) pi then 0 else phase alpha)"
  by (simp add: snapped_phases_def Let_def)

lemma snapped_phases_snd: "snd (snapped_phases alpha beta) = (if isclose (phase beta) pi then 0 else phase beta)"
  by (simp add: snapped_phases_def Let_def)

lemma denominator_cis: "\<exists>t. denominator alpha beta = cis t"
  by (auto simp: denominator_def Let_def cis_conv_exp split: prod.splits)

lemma denominator_nonzero: "denominator alpha beta \<noteq> 0"
  using denominator_cis [of alpha beta] by auto

lemma cmod_denominator: "cmod (denominator alpha beta) = 1"
  using denominator_cis [of alpha beta] by auto

subsection \<open>The result when both amplitudes are non-zero\<close>

lemma get_vector_general:
  assumes "alpha \<noteq> 0" and "beta \<noteq> 0" and "(alpha / denominator alpha beta)\<^sup>2 \<noteq> 1"
  shows "\<exists>x y. get_vector alpha beta = Inr [x, y, 2 * Re ((alpha / denominator alpha beta)\<^sup>2) - 1]"
proof -
  let ?d = "denominator alpha beta"
  have s: "sin (cmath_acos (alpha / ?d)) \<noteq> 0"
    using assms(3) by (rule sin_cmath_acos_nonzero)
  have "Re (cos (2 * cmath_acos (alpha / ?d))) = 2 * Re ((alpha / ?d)\<^sup>2) - 1"
    by (simp add: cos_double_cmath_acos)
  with s assms(1,2) show ?thesis
    by (simp add: get_vector_def bind_err_def cdiv_def cmath_log_def denominator_nonzero Let_def)
qed

lemma get_vector_no_exception:
  assumes "(cmod alpha)\<^sup>2 + (cmod beta)\<^sup>2 = 1"
  shows "\<exists>x y z. get_vector alpha beta = Inr [x, y, z]"
proof (cases "alpha = 0 \<or> beta = 0")
  case True
  then show ?thesis
    by (auto simp: get_vector_def bind_err_def cdiv_def denominator_nonzero)
next
  case False
  let ?a = "alpha / denominator alpha beta"
  from False assms have "(cmod alpha)\<^sup>2 < 1"
    by (smt (verit) norm_eq_zero zero_less_power2 zero_le_power2 norm_ge_zero power2_eq_square mult_pos_pos)
  then have "cmod (?a\<^sup>2) < 1"
    by (simp add: norm_power norm_divide cmod_denominator)
  then have "?a\<^sup>2 \<noteq> 1"
    by auto
  with False show ?thesis
    using get_vector_general [of alpha beta] by blast
qed

text \<open>
  When the denominator is the phase factor of alpha, \<open>alpha_new\<close> is the modulus of alpha,
  \<open>theta\<close> and \<open>phi\<close> are real, and the result is a vector of unit length.
\<close>

lemma principal_log_unit: "cmod z = 1 \<Longrightarrow> principal_log z = \<i> * complex_of_real (Arg z)"
  by (simp add: principal_log_def complex_eq_iff)

lemma cmath_acos_real:
  assumes "\<bar>a\<bar> \<le> 1"
  shows "\<exists>t. cmath_acos (complex_of_real a) = complex_of_real t"
proof -
  let ?u = "complex_of_real a + \<i> * csqrt (1 - (complex_of_real a)\<^sup>2)"
  have "0 \<le> 1 - a\<^sup>2"
    using assms by (simp add: abs_le_square_iff [of a 1, simplified])
  then have "csqrt (1 - (complex_of_real a)\<^sup>2) = complex_of_real (sqrt (1 - a\<^sup>2))"
    by (metis of_real_1 of_real_diff of_real_power of_real_sqrt)
  then have "?u = Complex a (sqrt (1 - a\<^sup>2))"
    by (simp add: complex_eq_iff)
  then have "(cmod ?u)\<^sup>2 = 1"
    using \<open>0 \<le> 1 - a\<^sup>2\<close> by (simp add: cmod_power2)
  then have "cmod ?u = 1"
    by (metis norm_ge_zero one_power2 power2_eq_iff_nonneg zero_le_one)
  then have "cmath_acos (complex_of_real a) = complex_of_real (Arg ?u)"
    by (simp add: cmath_acos_def principal_log_unit)
  then show ?thesis
    by blast
qed

lemma get_vector_unit_length:
  assumes norm: "(cmod alpha)\<^sup>2 + (cmod beta)\<^sup>2 = 1"
    and nz: "alpha \<noteq> 0" "beta \<noteq> 0"
    and den: "denominator alpha beta = exp (\<i> * complex_of_real (phase alpha))"
  shows "\<exists>x y z. get_vector alpha beta = Inr [x, y, z] \<and> x\<^sup>2 + y\<^sup>2 + z\<^sup>2 = 1"
proof -
  let ?d = "denominator alpha beta"
  have d: "?d = sgn alpha"
    using nz by (simp add: den phase_def cis_conv_exp [symmetric] cis_Arg)
  have an: "alpha / ?d = complex_of_real (cmod alpha)"
    using nz by (simp add: d sgn_eq)
  have le: "\<bar>cmod alpha\<bar> \<le> 1"
    using norm by (smt (verit) norm_ge_zero power2_le_imp_le zero_le_power2 one_power2 abs_of_nonneg)
  obtain t where t: "cmath_acos (complex_of_real (cmod alpha)) = complex_of_real t"
    using cmath_acos_real [OF le] by blast
  have cost: "cos t = cmod alpha"
    using cos_cmath_acos [of "complex_of_real (cmod alpha)"]
    by (simp add: t cos_of_real)
  have "(sin t)\<^sup>2 = 1 - (cmod alpha)\<^sup>2"
    using sin_cos_squared_add [of t] by (simp add: cost)
  then have sin2: "(sin t)\<^sup>2 = (cmod beta)\<^sup>2"
    using norm by simp
  then have sint: "\<bar>sin t\<bar> = cmod beta"
    by (metis abs_norm_cancel power2_eq_iff abs_minus_cancel)
  then have sin_nz: "sin t \<noteq> 0"
    using nz by auto
  let ?q = "beta / (?d * complex_of_real (sin t))"
  have "cmod ?q = 1"
    using nz sin_nz by (simp add: norm_divide norm_mult cmod_denominator denominator_nonzero sint)
  then have lg: "principal_log ?q = \<i> * complex_of_real (Arg ?q)" and qnz: "?q \<noteq> 0"
    by (auto simp: principal_log_unit)
  let ?p = "Arg ?q"
  have double: "sin (2 * complex_of_real t) = complex_of_real (sin (2 * t))"
    "cos (2 * complex_of_real t) = complex_of_real (cos (2 * t))"
    by (metis of_real_mult of_real_numeral sin_of_real, metis of_real_mult of_real_numeral cos_of_real)
  have "get_vector alpha beta =
      Inr [sin (2 * t) * cos ?p, sin (2 * t) * sin ?p, cos (2 * t)]"
    using nz sin_nz qnz
    by (simp add: get_vector_def bind_err_def cdiv_def cmath_log_def denominator_nonzero Let_def
        an t lg double sin_of_real cos_of_real)
  moreover have "(sin (2 * t) * cos ?p)\<^sup>2 + (sin (2 * t) * sin ?p)\<^sup>2 + (cos (2 * t))\<^sup>2 = 1"
  proof -
    have "(sin (2 * t) * cos ?p)\<^sup>2 + (sin (2 * t) * sin ?p)\<^sup>2 =
        (sin (2 * t))\<^sup>2 * ((cos ?p)\<^sup>2 + (sin ?p)\<^sup>2)"
      by (simp only: power_mult_distrib distrib_left)
    then show ?thesis
      by simp
  qed
  ultimately show ?thesis
    by blast
qed

lemma denominator_from_alpha:
  assumes "\<not> isclose (phase alpha) pi"
    and "\<not> (snd (snapped_phases alpha beta) < 0 \<and> phase alpha < snd (snapped_phases alpha beta))"
    and "\<not> (0 < snd (snapped_phases alpha beta) \<and> snd (snapped_phases alpha beta) < phase alpha)"
  shows "denominator alpha beta = exp (\<i> * complex_of_real (phase alpha))"
  using assms by (auto simp: denominator_def snapped_phases_def Let_def)

subsection \<open>Closeness to \<open>\<pi>\<close>\<close>

lemma phase_bounds: "- pi < phase z" "phase z \<le> pi"
  using Arg_bounded [of z] by (simp_all add: phase_def)

lemma isclose_pi_iff:
  assumes "- pi < a" and "a \<le> pi"
  shows "isclose a pi \<longleftrightarrow> pi - a \<le> rel_tol * pi"
proof -
  have r: "0 < rel_tol" "rel_tol < 1"
    by (simp_all add: rel_tol_def)
  have "rel_tol * \<bar>a\<bar> \<le> rel_tol * pi"
    using assms r by (intro mult_left_mono) auto
  moreover have "\<bar>a - pi\<bar> = pi - a" "\<bar>pi\<bar> = pi"
    using assms by auto
  moreover have "0 \<le> rel_tol * pi"
    using r by simp
  ultimately show ?thesis
    unfolding isclose_def abs_tol_def by auto
qed

lemma not_isclose_pi_nonpos:
  assumes "- pi < a" and "a \<le> 0"
  shows "\<not> isclose a pi"
proof -
  have "rel_tol * pi < pi"
    using pi_gt_zero by (simp add: rel_tol_def)
  with assms have "\<not> pi - a \<le> rel_tol * pi"
    by linarith
  moreover have "a \<le> pi"
    using assms pi_gt_zero by linarith
  ultimately show ?thesis
    using isclose_pi_iff [OF assms(1)] by blast
qed

lemma cmod_eqI: "0 \<le> r \<Longrightarrow> (Re z)\<^sup>2 + (Im z)\<^sup>2 = r\<^sup>2 \<Longrightarrow> cmod z = r"
  by (metis cmod_power2 norm_ge_zero power2_eq_iff_nonneg)

lemma phase_upper_half:
  assumes "0 < Im z"
  shows "0 < phase z" and "phase z < pi" and "\<not> isclose (phase z) pi \<or> Im z / cmod z \<le> rel_tol * pi"
proof -
  from assms have nz: "z \<noteq> 0"
    by auto
  then have s: "sin (phase z) = Im z / cmod z"
    by (simp add: phase_def sin_Arg)
  with assms nz have pos: "0 < sin (phase z)"
    by simp
  show lo: "0 < phase z"
  proof (rule ccontr)
    assume "\<not> 0 < phase z"
    then have "- pi \<le> phase z" "phase z \<le> 0"
      using phase_bounds(1) [of z] by simp_all
    then have "0 \<le> sin (- phase z)"
      by (intro sin_ge_zero) simp_all
    then have "sin (phase z) \<le> 0"
      by simp
    with pos show False by simp
  qed
  show hi: "phase z < pi"
    using phase_bounds(2) [of z] pos by (cases "phase z = pi") auto
  have "sin (phase z) = sin (pi - phase z)"
    by simp
  also have "\<dots> \<le> pi - phase z"
    using hi by (intro sin_x_le_x) simp
  finally have "Im z / cmod z \<le> pi - phase z"
    by (simp add: s)
  then show "\<not> isclose (phase z) pi \<or> Im z / cmod z \<le> rel_tol * pi"
    using isclose_pi_iff [OF phase_bounds] by auto
qed

subsection \<open>The two inputs that differ by a global phase\<close>

lemma rel_tol_pi_small: "rel_tol * pi < 1 / 2"
proof -
  have "rel_tol * pi < rel_tol * 4"
    using pi_less_4 by (simp add: rel_tol_def)
  then show ?thesis
    by (simp add: rel_tol_def)
qed

lemma cmod_rot: "cmod alpha_rot = 3 / 5" "cmod beta_rot = 4 / 5"
  by (rule cmod_eqI; simp add: alpha_rot_def beta_rot_def power2_eq_square)+

lemma denominator_rot: "denominator alpha_rot beta_rot = Complex (3 / 5) (4 / 5)"
proof -
  let ?a = "phase alpha_rot" and ?b = "phase beta_rot"
  have ima: "0 < Im alpha_rot" and imb: "0 < Im beta_rot"
    by (simp_all add: alpha_rot_def beta_rot_def)
  have nz: "alpha_rot \<noteq> 0" "beta_rot \<noteq> 0"
    using ima imb by auto
  have a: "0 < ?a" "?a < pi" and b: "0 < ?b" "?b < pi"
    using phase_upper_half(1,2) [OF ima] phase_upper_half(1,2) [OF imb] by simp_all
  have "\<not> isclose ?a pi"
    using phase_upper_half(3) [OF ima] rel_tol_pi_small
    by (simp add: cmod_rot) (simp add: alpha_rot_def)
  moreover have "\<not> isclose ?b pi"
    using phase_upper_half(3) [OF imb] rel_tol_pi_small
    by (simp add: cmod_rot) (simp add: beta_rot_def)
  ultimately have snapped: "snapped_phases alpha_rot beta_rot = (?a, ?b)"
    by (simp add: snapped_phases_def Let_def)
  have "cos ?a = - 4 / 5" "cos ?b = 3 / 5"
    using nz by (simp_all add: phase_def cos_Arg cmod_rot) (simp_all add: alpha_rot_def beta_rot_def)
  then have "cos ?a < cos ?b"
    by simp
  then have "?b < ?a"
    using a b by (simp add: cos_mono_less_eq)
  with b snapped have "denominator alpha_rot beta_rot = cis ?b"
    by (simp add: denominator_def cis_conv_exp)
  also have "\<dots> = sgn beta_rot"
    using nz by (simp add: phase_def cis_Arg)
  also have "\<dots> = Complex (3 / 5) (4 / 5)"
    by (simp add: sgn_eq cmod_rot) (simp add: beta_rot_def complex_eq_iff)
  finally show ?thesis .
qed

lemma alpha_new_rot: "alpha_rot / denominator alpha_rot beta_rot = Complex 0 (3 / 5)"
  by (subst denominator_rot)
    (simp add: alpha_rot_def complex_eq_iff Re_divide Im_divide power2_eq_square)

lemma get_vector_rot: "\<exists>x y. get_vector alpha_rot beta_rot = Inr [x, y, - 43 / 25]"
proof -
  have sq: "(alpha_rot / denominator alpha_rot beta_rot)\<^sup>2 = - 9 / 25"
    by (simp add: alpha_new_rot complex_eq_iff power2_eq_square)
  have "alpha_rot \<noteq> 0" "beta_rot \<noteq> 0"
    by (simp_all add: alpha_rot_def beta_rot_def complex_eq_iff)
  moreover have "(alpha_rot / denominator alpha_rot beta_rot)\<^sup>2 \<noteq> 1"
    by (simp add: sq complex_eq_iff)
  ultimately show ?thesis
    using get_vector_general [of alpha_rot beta_rot] by (simp add: sq)
qed

lemma phase_ref: "phase alpha_ref = pi / 2" "phase beta_ref = 0"
proof -
  have "cmod alpha_ref = 3 / 5" "cmod beta_ref = 4 / 5"
    by (rule cmod_eqI; simp add: alpha_ref_def beta_ref_def power2_eq_square)+
  then have "sgn alpha_ref = cis (pi / 2)" "sgn beta_ref = cis 0"
    by (simp_all add: sgn_eq alpha_ref_def beta_ref_def complex_eq_iff)
  then show "phase alpha_ref = pi / 2" "phase beta_ref = 0"
    unfolding phase_def by (intro cis_Arg_unique; simp)+
qed

lemma denominator_ref: "denominator alpha_ref beta_ref = \<i>"
proof -
  have "\<not> isclose (pi / 2) pi"
    using isclose_pi_iff [of "pi / 2"] by (simp add: rel_tol_def)
  moreover have "\<not> isclose 0 pi"
    by (rule not_isclose_pi_nonpos) simp_all
  ultimately have "snapped_phases alpha_ref beta_ref = (pi / 2, 0)"
    by (simp add: snapped_phases_def phase_ref)
  moreover have "exp (\<i> * complex_of_real pi / 2) = \<i>"
    using cis_pi_half by (simp add: cis_conv_exp)
  ultimately show ?thesis
    by (simp add: denominator_def)
qed

lemma get_vector_ref: "\<exists>x y. get_vector alpha_ref beta_ref = Inr [x, y, - 7 / 25]"
proof -
  have sq: "(alpha_ref / denominator alpha_ref beta_ref)\<^sup>2 = 9 / 25"
    by (subst denominator_ref) (simp add: alpha_ref_def complex_eq_iff power2_eq_square)
  have "alpha_ref \<noteq> 0" "beta_ref \<noteq> 0"
    by (simp_all add: alpha_ref_def beta_ref_def complex_eq_iff)
  moreover have "(alpha_ref / denominator alpha_ref beta_ref)\<^sup>2 \<noteq> 1"
    by (simp add: sq complex_eq_iff)
  ultimately show ?thesis
    using get_vector_general [of alpha_ref beta_ref] by (simp add: sq)
qed

lemma rotate_ref:
  "exp (\<i> * complex_of_real (phase (Complex (3 / 5) (4 / 5)))) * alpha_ref = alpha_rot"
  "exp (\<i> * complex_of_real (phase (Complex (3 / 5) (4 / 5)))) * beta_ref = beta_rot"
proof -
  have "cmod (Complex (3 / 5) (4 / 5)) = 1"
    by (rule cmod_eqI) (simp_all add: power2_eq_square)
  then have "cis (phase (Complex (3 / 5) (4 / 5))) = Complex (3 / 5) (4 / 5)"
    by (simp add: phase_def cis_Arg sgn_eq complex_eq_iff)
  then have e: "exp (\<i> * complex_of_real (phase (Complex (3 / 5) (4 / 5)))) = Complex (3 / 5) (4 / 5)"
    by (simp add: cis_conv_exp)
  show "exp (\<i> * complex_of_real (phase (Complex (3 / 5) (4 / 5)))) * alpha_ref = alpha_rot"
    "exp (\<i> * complex_of_real (phase (Complex (3 / 5) (4 / 5)))) * beta_ref = beta_rot"
    by (simp_all add: e alpha_ref_def beta_ref_def alpha_rot_def beta_rot_def complex_eq_iff)
qed

subsection \<open>The claims about get_vector\<close>

text \<open>
  Claim C1 says that get_vector returns a vector of unit length for every normalized pair
  of non-zero amplitudes. The pair \<open>(-0.48 + 0.36j, 0.48 + 0.64j)\<close> is normalized and
  has both amplitudes non-zero; there the phase of alpha exceeds the positive phase of
  beta, the denominator is taken from beta, \<open>alpha_new\<close> is \<open>0.6j\<close>, not real, and the
  third coordinate returned is \<open>-1.72\<close>: the result is not of unit length.
\<close>

theorem get_vector_z_exceeds_unit_sphere:
  "(cmod (Complex (- 12 / 25) (9 / 25)))\<^sup>2 + (cmod (Complex (12 / 25) (16 / 25)))\<^sup>2 = 1 \<and>
   Complex (- 12 / 25) (9 / 25) \<noteq> 0 \<and> Complex (12 / 25) (16 / 25) \<noteq> 0 \<and>
   (\<exists>x y z. get_vector (Complex (- 12 / 25) (9 / 25)) (Complex (12 / 25) (16 / 25)) = Inr [x, y, z] \<and>
      z = - 43 / 25 \<and> x\<^sup>2 + y\<^sup>2 + z\<^sup>2 \<noteq> 1)"
proof -
  obtain x y where xy: "get_vector alpha_rot beta_rot = Inr [x, y, - 43 / 25]"
    using get_vector_rot by blast
  have "1 < (- 43 / 25 :: real)\<^sup>2"
    by (simp add: power2_eq_square)
  moreover have "0 \<le> x\<^sup>2 + y\<^sup>2"
    by simp
  ultimately have "x\<^sup>2 + y\<^sup>2 + (- 43 / 25)\<^sup>2 \<noteq> 1"
    by linarith
  with xy have "\<exists>x y z. get_vector alpha_rot beta_rot = Inr [x, y, z] \<and>
      z = - 43 / 25 \<and> x\<^sup>2 + y\<^sup>2 + z\<^sup>2 \<noteq> 1"
    by blast
  moreover have "(cmod alpha_rot)\<^sup>2 + (cmod beta_rot)\<^sup>2 = 1"
    by (simp add: cmod_rot power2_eq_square)
  ultimately show ?thesis
    by (simp add: alpha_rot_def beta_rot_def complex_eq_iff)
qed

text \<open>
  Claim C8 says that get_vector is invariant under a global phase. For the normalized pair
  \<open>(0.6j, 0.8)\<close> and the phase \<open>\<phi> = phase(0.6 + 0.8j)\<close> it is not: the third coordinate
  is \<open>-0.28\<close> for the pair and \<open>-1.72\<close> for the pair multiplied by \<open>e\<^sup>i\<^sup>\<phi>\<close>.
\<close>

theorem get_vector_changes_under_global_phase:
  "(cmod (Complex 0 (3 / 5)))\<^sup>2 + (cmod (Complex (4 / 5) 0))\<^sup>2 = 1 \<and>
   Complex 0 (3 / 5) \<noteq> 0 \<and> Complex (4 / 5) 0 \<noteq> 0 \<and>
   get_vector
     (exp (\<i> * complex_of_real (phase (Complex (3 / 5) (4 / 5)))) * Complex 0 (3 / 5))
     (exp (\<i> * complex_of_real (phase (Complex (3 / 5) (4 / 5)))) * Complex (4 / 5) 0)
   \<noteq> get_vector (Complex 0 (3 / 5)) (Complex (4 / 5) 0)"
proof -
  obtain x y where rot: "get_vector alpha_rot beta_rot = Inr [x, y, - 43 / 25]"
    using get_vector_rot by blast
  obtain x' y' where ref: "get_vector alpha_ref beta_ref = Inr [x', y', - 7 / 25]"
    using get_vector_ref by blast
  from rot ref have "get_vector alpha_rot beta_rot \<noteq> get_vector alpha_ref beta_ref"
    by simp
  then have "get_vector
     (exp (\<i> * complex_of_real (phase (Complex (3 / 5) (4 / 5)))) * alpha_ref)
     (exp (\<i> * complex_of_real (phase (Complex (3 / 5) (4 / 5)))) * beta_ref)
     \<noteq> get_vector alpha_ref beta_ref"
    by (simp add: rotate_ref)
  moreover have "(cmod alpha_ref)\<^sup>2 + (cmod beta_ref)\<^sup>2 = 1"
    by (simp add: cmod_power2 alpha_ref_def beta_ref_def) (simp add: power2_eq_square)
  ultimately show ?thesis
    by (simp add: alpha_ref_def beta_ref_def complex_eq_iff)
qed

text \<open>
  Claim C2. When exactly one amplitude is zero, get_vector returns a pole: \<open>[0, 0, -1]\<close>
  when alpha is zero, \<open>[0, 0, 1]\<close> when beta is zero.
\<close>

theorem get_vector_poles:
  "(alpha = 0 \<and> beta \<noteq> 0 \<longrightarrow> get_vector alpha beta = Inr [0, 0, - 1]) \<and>
   (beta = 0 \<and> alpha \<noteq> 0 \<longrightarrow> get_vector alpha beta = Inr [0, 0, 1])"
  by (simp add: get_vector_def bind_err_def cdiv_def denominator_nonzero)

theorem get_vector_poles_witness:
  "get_vector 0 1 = Inr [0, 0, - 1] \<and> get_vector 1 0 = Inr [0, 0, 1]"
  using get_vector_poles [of 0 1] get_vector_poles [of 1 0] by simp

text \<open>
  When the squared moduli add up to 1 exactly, get_vector raises no exception: with both
  amplitudes non-zero the divisor \<open>sin(theta/2)\<close> is not zero, and neither is the argument
  of the logarithm.
\<close>

lemma get_vector_exactly_normalized:
  assumes "(cmod alpha)\<^sup>2 + (cmod beta)\<^sup>2 = 1"
  shows "(\<exists>x y z. get_vector alpha beta = Inr [x, y, z]) \<and>
         (alpha \<noteq> 0 \<and> beta \<noteq> 0 \<longrightarrow>
            sin (2 * cmath_acos (alpha / denominator alpha beta) / 2) \<noteq> 0 \<and>
            cdiv beta (denominator alpha beta) \<noteq> Inl ZeroDivisionError \<and>
            beta / denominator alpha beta / sin (2 * cmath_acos (alpha / denominator alpha beta) / 2) \<noteq> 0)"
proof -
  have "sin (cmath_acos (alpha / denominator alpha beta)) \<noteq> 0" if "beta \<noteq> 0"
  proof -
    from that assms have "(cmod alpha)\<^sup>2 < 1"
      by (smt (verit) norm_eq_zero zero_less_power2)
    then have "cmod ((alpha / denominator alpha beta)\<^sup>2) < 1"
      by (simp add: norm_power norm_divide cmod_denominator)
    then have "(alpha / denominator alpha beta)\<^sup>2 \<noteq> 1"
      by auto
    then show ?thesis
      by (rule sin_cmath_acos_nonzero)
  qed
  then show ?thesis
    using get_vector_no_exception [OF assms] by (simp add: cdiv_def denominator_nonzero)
qed

text \<open>
  For every input, get_vector raises exactly when both amplitudes are non-zero and the
  square of \<open>alpha_new\<close> is 1: then \<open>theta/2\<close> is a zero of the sine and the division of
  \<open>beta_new\<close> by \<open>sin(theta/2)\<close> raises \<open>ZeroDivisionError\<close>. The special case of the code
  covers an amplitude that is zero, and nothing else.
\<close>

lemma get_vector_raises_iff:
  "get_vector alpha beta = Inl ZeroDivisionError \<longleftrightarrow>
     alpha \<noteq> 0 \<and> beta \<noteq> 0 \<and> (alpha / denominator alpha beta)\<^sup>2 = 1"
proof (cases "alpha = 0 \<or> beta = 0")
  case True
  then show ?thesis
    by (auto simp: get_vector_def bind_err_def cdiv_def denominator_nonzero)
next
  case False
  show ?thesis
  proof (cases "(alpha / denominator alpha beta)\<^sup>2 = 1")
    case True
    then have "(sin (cmath_acos (alpha / denominator alpha beta)))\<^sup>2 = 0"
      by (simp add: sin_cmath_acos_squared)
    then have "sin (cmath_acos (alpha / denominator alpha beta)) = 0"
      by simp
    with False True show ?thesis
      by (simp add: get_vector_def bind_err_def cdiv_def denominator_nonzero Let_def)
  next
    case neq: False
    with False obtain x y where
      "get_vector alpha beta = Inr [x, y, 2 * Re ((alpha / denominator alpha beta)\<^sup>2) - 1]"
      using get_vector_general [of alpha beta] by blast
    with neq show ?thesis
      by simp
  qed
qed

lemma denominator_alpha_one: "denominator 1 beta = 1"
proof -
  have "phase 1 = 0"
    by (simp add: phase_def cis_Arg_unique)
  moreover have "\<not> isclose 0 pi"
    by (rule not_isclose_pi_nonpos) simp_all
  ultimately have "fst (snapped_phases 1 beta) = 0"
    by (simp add: snapped_phases_fst)
  then show ?thesis
    by (auto simp: denominator_def split: prod.splits)
qed

lemma get_vector_alpha_one: "beta \<noteq> 0 \<Longrightarrow> get_vector 1 beta = Inl ZeroDivisionError"
  by (simp add: get_vector_raises_iff denominator_alpha_one)

text \<open>
  Claim C9 says that get_vector raises no exception on a normalized pair, the division
  by \<open>sin(theta/2)\<close> being reached with a non-zero divisor only. The pair \<open>(1.0, 1e-9)\<close>
  has both amplitudes non-zero, and its squared moduli add up to \<open>1 + 10\<^sup>-\<^sup>1\<^sup>8\<close>, which is
  less than half a unit in the last place of a double away from 1: in the arithmetic of
  the program the sum is \<open>1.0\<close>. There the denominator is 1, \<open>alpha_new\<close> is 1, \<open>theta\<close> is 0
  and the division by \<open>sin(theta/2)\<close> raises \<open>ZeroDivisionError\<close>. The same holds for
  the pair of doubles \<open>(1.0, 2**-30)\<close>.
\<close>

theorem get_vector_divides_by_zero_near_pole:
  "(1 :: complex) \<noteq> 0 \<and> complex_of_real (1 / 10 ^ 9) \<noteq> 0 \<and>
   \<bar>(cmod 1)\<^sup>2 + (cmod (complex_of_real (1 / 10 ^ 9)))\<^sup>2 - 1\<bar> < 1 / 2 ^ 53 \<and>
   denominator 1 (complex_of_real (1 / 10 ^ 9)) = 1 \<and>
   sin (2 * cmath_acos (1 / denominator 1 (complex_of_real (1 / 10 ^ 9))) / 2) = 0 \<and>
   get_vector 1 (complex_of_real (1 / 10 ^ 9)) = Inl ZeroDivisionError \<and>
   complex_of_real (1 / 2 ^ 30) \<noteq> 0 \<and>
   \<bar>(cmod 1)\<^sup>2 + (cmod (complex_of_real (1 / 2 ^ 30)))\<^sup>2 - 1\<bar> < 1 / 2 ^ 53 \<and>
   get_vector 1 (complex_of_real (1 / 2 ^ 30)) = Inl ZeroDivisionError"
proof -
  have nz: "complex_of_real (1 / 10 ^ 9) \<noteq> 0" "complex_of_real (1 / 2 ^ 30) \<noteq> 0"
    by simp_all
  have "(sin (cmath_acos 1))\<^sup>2 = 0"
    by (simp add: sin_cmath_acos_squared)
  then have s: "sin (cmath_acos 1) = 0"
    by simp
  have g1: "get_vector 1 (complex_of_real (1 / 10 ^ 9)) = Inl ZeroDivisionError"
    using nz(1) by (rule get_vector_alpha_one)
  have g2: "get_vector 1 (complex_of_real (1 / 2 ^ 30)) = Inl ZeroDivisionError"
    using nz(2) by (rule get_vector_alpha_one)
  have n1: "\<bar>(cmod 1)\<^sup>2 + (cmod (complex_of_real (1 / 10 ^ 9)))\<^sup>2 - 1\<bar> < 1 / 2 ^ 53"
    by (simp add: power_divide)
  have n2: "\<bar>(cmod 1)\<^sup>2 + (cmod (complex_of_real (1 / 2 ^ 30)))\<^sup>2 - 1\<bar> < 1 / 2 ^ 53"
    by (simp add: power_divide)
  from s g1 g2 n1 n2 show ?thesis
    by (simp add: denominator_alpha_one)
qed

text \<open>
  Claim C7. A phase that \<open>cmath.isclose\<close> finds close to \<open>\<pi>\<close> is replaced by 0 before the
  denominator is chosen: when it is the phase of alpha the denominator is 1, and when it
  is the phase of beta the denominator is taken from the phase of alpha. A phase that is
  not close to \<open>\<pi>\<close> is used unchanged. A phase is close to \<open>\<pi>\<close> exactly when it is
  within \<open>\<pi> / 10\<^sup>9\<close> below \<open>\<pi>\<close>, so no phase at or below 0, however close to \<open>-\<pi>\<close>, is
  changed.
\<close>

theorem phase_close_to_pi_snapped_to_zero:
  "(isclose (phase alpha) pi \<longrightarrow>
      fst (snapped_phases alpha beta) = 0 \<and> denominator alpha beta = 1) \<and>
   (\<not> isclose (phase alpha) pi \<longrightarrow> fst (snapped_phases alpha beta) = phase alpha) \<and>
   (isclose (phase beta) pi \<longrightarrow>
      snd (snapped_phases alpha beta) = 0 \<and>
      denominator alpha beta = exp (\<i> * complex_of_real (fst (snapped_phases alpha beta)))) \<and>
   (\<not> isclose (phase beta) pi \<longrightarrow> snd (snapped_phases alpha beta) = phase beta) \<and>
   (isclose (phase alpha) pi \<longleftrightarrow> pi - phase alpha \<le> pi / 10 ^ 9) \<and>
   (isclose (phase beta) pi \<longleftrightarrow> pi - phase beta \<le> pi / 10 ^ 9) \<and>
   (phase alpha \<le> 0 \<longrightarrow> fst (snapped_phases alpha beta) = phase alpha) \<and>
   (phase beta \<le> 0 \<longrightarrow> snd (snapped_phases alpha beta) = phase beta)"
proof -
  have close: "isclose (phase z) pi \<longleftrightarrow> pi - phase z \<le> pi / 10 ^ 9" for z
    using isclose_pi_iff [OF phase_bounds, of z] by (simp add: rel_tol_def)
  have far: "\<not> isclose (phase z) pi" if "phase z \<le> 0" for z
    using not_isclose_pi_nonpos [OF phase_bounds(1) that] .
  have one: "denominator alpha beta = 1" if "isclose (phase alpha) pi"
    using that by (auto simp: denominator_def snapped_phases_def Let_def)
  have other: "denominator alpha beta = exp (\<i> * complex_of_real (fst (snapped_phases alpha beta)))"
    if "isclose (phase beta) pi"
    using that by (simp add: denominator_def snapped_phases_def Let_def)
  show ?thesis
    using close [of alpha] close [of beta] far [of alpha] far [of beta] one other
    by (auto simp: snapped_phases_fst snapped_phases_snd)
qed

theorem phase_close_to_pi_snapped_to_zero_witness:
  "isclose (phase (- 1)) pi \<and> fst (snapped_phases (- 1) (- \<i>)) = 0 \<and>
   denominator (- 1) (- \<i>) = 1 \<and>
   \<not> isclose (phase (- \<i>)) pi \<and> snd (snapped_phases (- 1) (- \<i>)) = - pi / 2"
proof -
  have "sgn (- 1 :: complex) = cis pi"
    by (simp add: sgn_eq)
  then have p1: "phase (- 1) = pi"
    unfolding phase_def by (rule cis_Arg_unique) simp_all
  have p2: "phase (- \<i>) = - pi / 2"
    by (simp add: phase_def)
  have c1: "isclose (phase (- 1)) pi"
    by (simp add: p1 isclose_def)
  have c2: "phase (- \<i>) \<le> 0"
    by (simp add: p2)
  note inst = phase_close_to_pi_snapped_to_zero [of "- 1" "- \<i>"]
  from inst c1 have "fst (snapped_phases (- 1) (- \<i>)) = 0 \<and> denominator (- 1) (- \<i>) = 1"
    by blast
  moreover from inst c2 have s: "snd (snapped_phases (- 1) (- \<i>)) = phase (- \<i>)"
    by blast
  moreover have "\<not> isclose (phase (- \<i>)) pi"
  proof
    assume "isclose (phase (- \<i>)) pi"
    with inst have "snd (snapped_phases (- 1) (- \<i>)) = 0"
      by blast
    with s p2 show False
      by simp
  qed
  ultimately show ?thesis
    using c1 p2 by simp
qed


section \<open>Properties of the Fourier transform circuit\<close>

lemma upt8: "[0..<8] = [0, 1, 2, 3, 4, 5, 6, 7]"
  by (simp add: upt_rec)

lemma positions: "position [q0, q1, q2] q0 = Some 0" "position [q0, q1, q2] q1 = Some 1"
  "position [q0, q1, q2] q2 = Some 2"
  by (simp_all add: q0_def q1_def q2_def)

lemma sqrt2_times: "complex_of_real (sqrt 2) * complex_of_real (sqrt 2) = 2"
  by (metis of_real_mult of_real_numeral real_sqrt_mult_self abs_numeral)

lemma sqrt2_times_left: "complex_of_real (sqrt 2) * (complex_of_real (sqrt 2) * z) = 2 * z"
  by (simp add: sqrt2_times mult.assoc [symmetric])

lemma sqrt8: "sqrt 8 = 2 * sqrt 2"
proof -
  have "sqrt 8 = sqrt (4 * 2)"
    by simp
  also have "\<dots> = 2 * sqrt 2"
    by (simp only: real_sqrt_mult real_sqrt_four)
  finally show ?thesis .
qed

lemma qft_on_basis_1:
  "\<exists>ys. simulate [q0, q1, q2] qft [0, 1, 0, 0, 0, 0, 0, 0] = Some ys \<and> ys ! 1 = - 1 / complex_of_real (sqrt 8)"
  by (simp add: simulate_def qft_def apply_operation_def hadamard_def cz_pow_def qubit_bit_def
      upt8 Let_def q0_def q1_def q2_def sqrt8 sqrt2_times)

lemma dft_on_basis_1:
  "dft [0, 1, 0, 0, 0, 0, 0, 0] ! 1 = exp (\<i> * complex_of_real (pi / 4)) / complex_of_real (sqrt 8)"
  by (simp add: dft_def upt8 Let_def algebra_simps)

lemma exp_quarter_not_minus_1: "exp (\<i> * complex_of_real (pi / 4)) \<noteq> - 1"
proof
  assume "exp (\<i> * complex_of_real (pi / 4)) = - 1"
  then have "Re (cis (pi / 4)) = - 1"
    by (simp add: cis_conv_exp)
  then have "cos (pi / 4) = - 1"
    by simp
  moreover have "0 < cos (pi / 4)"
    by (intro cos_gt_zero_pi) simp_all
  ultimately show False
    by simp
qed

lemma dft_term: "exp (2 * complex_of_real pi * \<i> * of_nat m / of_nat 8) = omega8 m"
proof -
  have "2 * complex_of_real pi * \<i> * of_nat m / of_nat 8 = \<i> * complex_of_real (pi * real m / 4)"
    by simp
  then show ?thesis
    by (simp only: omega8_def cis_conv_exp)
qed

lemma omega8_mod: "omega8 m = omega8 (m mod 8)"
proof -
  have "real m = 8 * real (m div 8) + real (m mod 8)"
    by (metis of_nat_add of_nat_mult of_nat_numeral mult_div_mod_eq)
  then have "pi * real m / 4 = 2 * pi * real (m div 8) + pi * real (m mod 8) / 4"
    by (simp add: algebra_simps)
  then have "omega8 m = cis (2 * pi * real (m div 8) + pi * real (m mod 8) / 4)"
    by (simp only: omega8_def)
  also have "\<dots> = cis (2 * pi * real (m div 8)) * cis (pi * real (m mod 8) / 4)"
    by (simp only: cis_mult)
  also have "cis (2 * pi * real (m div 8)) = 1"
    by (rule cis_multiple_2pi) simp
  finally show ?thesis
    by (simp add: omega8_def)
qed

lemma omega8_values:
  "omega8 0 = 1" "omega8 1 = cis (pi / 4)" "omega8 2 = \<i>" "omega8 3 = \<i> * cis (pi / 4)"
  "omega8 4 = - 1" "omega8 5 = - cis (pi / 4)" "omega8 6 = - \<i>" "omega8 7 = - (\<i> * cis (pi / 4))"
proof -
  show "omega8 0 = 1" "omega8 1 = cis (pi / 4)" "omega8 2 = \<i>" "omega8 4 = - 1"
    by (simp_all add: omega8_def)
  have "omega8 3 = cis (pi / 2 + pi / 4)"
    unfolding omega8_def by (rule arg_cong [where f = cis]) simp
  then show "omega8 3 = \<i> * cis (pi / 4)"
    by (simp only: cis_mult [symmetric] cis_pi_half)
  have "omega8 5 = cis (pi + pi / 4)"
    unfolding omega8_def by (rule arg_cong [where f = cis]) simp
  then show "omega8 5 = - cis (pi / 4)"
    by (simp only: cis_mult [symmetric] cis_pi) simp
  have "omega8 6 = cis (pi + pi / 2)"
    unfolding omega8_def by (rule arg_cong [where f = cis]) simp
  then show "omega8 6 = - \<i>"
    by (simp only: cis_mult [symmetric] cis_pi cis_pi_half) simp
  have "omega8 7 = cis (pi + (pi / 2 + pi / 4))"
    unfolding omega8_def by (rule arg_cong [where f = cis]) simp
  then show "omega8 7 = - (\<i> * cis (pi / 4))"
    by (simp only: cis_mult [symmetric] cis_pi cis_pi_half) simp
qed

lemma omega8_reduce: "8 \<le> m \<Longrightarrow> omega8 m = omega8 (m - 8)"
  using omega8_mod [of m] omega8_mod [of "m - 8"] by (simp add: le_mod_geq)

lemma dft8:
  "length xs = 8 \<Longrightarrow>
   dft xs = map (\<lambda>k. (\<Sum>j\<leftarrow>[0..<8]. xs ! j * omega8 (j * k)) / complex_of_real (sqrt 8)) [0..<8]"
  by (simp add: dft_def Let_def dft_term [symmetric])

lemma phase_gates: "exp (\<i> * complex_of_real pi / 2) = \<i>"
  "exp (\<i> * complex_of_real pi / 4) = cis (pi / 4)"
  using cis_pi_half by (simp_all add: cis_conv_exp)

lemma qft_explicit:
  "simulate [q0, q1, q2] qft [x0, x1, x2, x3, x4, x5, x6, x7] =
     Some (map (\<lambda>k. dft [x0, x1, x2, x3, x4, x5, x6, x7] ! bit_reverse3 k) [0..<8])"
  apply (simp add: dft8)
  apply (simp add: simulate_def qft_def apply_operation_def hadamard_def cz_pow_def qubit_bit_def upt8 Let_def
      q0_def q1_def q2_def phase_gates bit_reverse3_def omega8_reduce omega8_values
      flip: One_nat_def)
  apply (simp add: sqrt8 field_simps sqrt2_times sqrt2_times_left)
  done

lemma qft_on_basis_1_reversed_order:
  "\<exists>ys. simulate [q2, q1, q0] qft [0, 1, 0, 0, 0, 0, 0, 0] = Some ys \<and> ys ! 1 = - 1 / complex_of_real (sqrt 8)"
  by (simp add: simulate_def qft_def apply_operation_def hadamard_def cz_pow_def qubit_bit_def
      upt8 Let_def q0_def q1_def q2_def sqrt8 sqrt2_times)

text \<open>
  In the sorted qubit order the circuit computes the Fourier transform with the three
  bits of the output index reversed.
\<close>

lemma length8E:
  assumes "length xs = 8"
  obtains x0 x1 x2 x3 x4 x5 x6 x7 where "xs = [x0, x1, x2, x3, x4, x5, x6, x7]"
  using assms by (auto simp: length_Suc_conv eval_nat_numeral)

lemma qft_is_bit_reversed_dft:
  assumes "length xs = 8"
  shows "simulate [q0, q1, q2] qft xs = Some (map (\<lambda>k. dft xs ! bit_reverse3 k) [0..<8])"
proof -
  from assms obtain x0 x1 x2 x3 x4 x5 x6 x7 where "xs = [x0, x1, x2, x3, x4, x5, x6, x7]"
    by (rule length8E)
  then show ?thesis
    by (simp only: qft_explicit)
qed

text \<open>
  Claim C6 says that the circuit \<open>qft\<close> maps every state to its discrete Fourier transform.
  On the basis state with \<open>x\<^sub>1 = 1\<close> it does not: the amplitude of index 1 is
  \<open>-1 / \<surd>8\<close> after the circuit, in the sorted qubit order and in the reverse order, and
  \<open>e\<^sup>i\<^sup>\<pi>\<^sup>/\<^sup>4 / \<surd>8\<close> in the Fourier transform.
\<close>

theorem qft_circuit_is_not_the_dft:
  "\<exists>ys ys'. simulate [q0, q1, q2] qft [0, 1, 0, 0, 0, 0, 0, 0] = Some ys \<and>
     simulate [q2, q1, q0] qft [0, 1, 0, 0, 0, 0, 0, 0] = Some ys' \<and>
     ys ! 1 = - 1 / complex_of_real (sqrt 8) \<and>
     ys' ! 1 = - 1 / complex_of_real (sqrt 8) \<and>
     dft [0, 1, 0, 0, 0, 0, 0, 0] ! 1 = exp (\<i> * complex_of_real (pi / 4)) / complex_of_real (sqrt 8) \<and>
     ys \<noteq> dft [0, 1, 0, 0, 0, 0, 0, 0] \<and> ys' \<noteq> dft [0, 1, 0, 0, 0, 0, 0, 0]"
proof -
  obtain ys where ys: "simulate [q0, q1, q2] qft [0, 1, 0, 0, 0, 0, 0, 0] = Some ys"
    "ys ! 1 = - 1 / complex_of_real (sqrt 8)"
    using qft_on_basis_1 by blast
  obtain ys' where ys': "simulate [q2, q1, q0] qft [0, 1, 0, 0, 0, 0, 0, 0] = Some ys'"
    "ys' ! 1 = - 1 / complex_of_real (sqrt 8)"
    using qft_on_basis_1_reversed_order by blast
  have "- 1 / complex_of_real (sqrt 8) \<noteq> exp (\<i> * complex_of_real (pi / 4)) / complex_of_real (sqrt 8)"
    using exp_quarter_not_minus_1 by (simp add: divide_simps)
  then have "ys ! 1 \<noteq> dft [0, 1, 0, 0, 0, 0, 0, 0] ! 1" "ys' ! 1 \<noteq> dft [0, 1, 0, 0, 0, 0, 0, 0] ! 1"
    by (simp_all only: ys ys' dft_on_basis_1 not_False_eq_True)
  then have "ys \<noteq> dft [0, 1, 0, 0, 0, 0, 0, 0]" "ys' \<noteq> dft [0, 1, 0, 0, 0, 0, 0, 0]"
    by auto
  with ys ys' dft_on_basis_1 show ?thesis
    by blast
qed

end
